theory Spec2Isabelle
  imports Complex_Main
begin

section \<open>Values of the host language\<close>

text \<open>
  The library is TypeScript. Its strings are modelled as \<open>string\<close>; an optional property
  (\<open>quantity?\<close>, \<open>units?\<close>, \<open>synonym?\<close>, \<open>step?\<close>, \<open>extension?\<close>) is an \<open>option\<close>, with
  \<open>None\<close> for a property that is missing or \<open>undefined\<close>.

  A \<open>number\<close> is only ever tested for truthiness and converted to a string by the code
  below; no arithmetic is done on it. A finite number is therefore represented by the
  rational value of the decimal numeral that the conversion to string prints for it (\<open>0.5\<close>
  is \<open>Finite (1/2)\<close>, \<open>2\<close> is \<open>Finite 2\<close>); the other numbers are \<open>NaN\<close> and the two
  infinities.
\<close>

datatype number = Finite rat | NaN | Infinity | NegInfinity

text \<open>A number is falsy when it is zero or \<open>NaN\<close>.\<close>

fun number_truthy :: "number \<Rightarrow> bool" where
  "number_truthy (Finite q) = (q \<noteq> 0)"
| "number_truthy NaN = False"
| "number_truthy Infinity = True"
| "number_truthy NegInfinity = True"

definition nl :: string where
  "nl = ''\<newline>''"

definition digit_chars :: string where
  "digit_chars = ''0123456789''"

text \<open>The decimal digits of an integer that is not negative.\<close>

function digits :: "int \<Rightarrow> string" where
  "digits n =
     (if n < 10 then [digit_chars ! nat n]
      else digits (n div 10) @ [digit_chars ! nat (n mod 10)])"
  by pat_completeness auto
termination
  by (relation "measure nat") auto

declare digits.simps [simp del]

text \<open>
  The number of decimals of a rational: the least \<open>f\<close> with \<open>q * 10 ^ f\<close> an integer, looked
  for up to a bound. The numeral of a finite number has fewer than 400 decimals.
\<close>

fun fraction_places :: "nat \<Rightarrow> rat \<Rightarrow> nat" where
  "fraction_places fuel q =
     (if fuel = 0 \<or> frac q = 0 then 0 else Suc (fraction_places (fuel - 1) (q * 10)))"

declare fraction_places.simps [simp del]

text \<open>
  \<open>Number::toString\<close> on a positive finite number \<open>q\<close>. With \<open>s\<close> the significant digits
  of \<open>q\<close> (no zero at the end), \<open>k\<close> their count and \<open>n\<close> the position of the decimal point,
  \<open>q = s * 10 ^ (n - k)\<close>, the language prints plain decimal notation for \<open>-6 < n \<le> 21\<close>
  and exponent notation otherwise.
\<close>

definition positive_toString :: "rat \<Rightarrow> string" where
  "positive_toString q =
     (let f = fraction_places 400 q;
          ds = digits \<lfloor>q * 10 ^ f\<rfloor>;
          s = rev (dropWhile (\<lambda>c. c = CHR ''0'') (rev ds));
          k = int (length s);
          n = int (length ds) - int f
      in if k \<le> n \<and> n \<le> 21 then s @ replicate (nat (n - k)) CHR ''0''
         else if 0 < n \<and> n \<le> 21 then take (nat n) s @ ''.'' @ drop (nat n) s
         else if - 6 < n \<and> n \<le> 0 then ''0.'' @ replicate (nat (- n)) CHR ''0'' @ s
         else (if k = 1 then s else take 1 s @ ''.'' @ drop 1 s)
              @ ''e'' @ (if n - 1 < 0 then ''-'' else ''+'') @ digits \<bar>n - 1\<bar>)"

definition Number_toString :: "number \<Rightarrow> string" where
  "Number_toString x =
     (case x of
        Finite q \<Rightarrow>
          if q = 0 then ''0''
          else if q < 0 then ''-'' @ positive_toString (- q)
          else positive_toString q
      | NaN \<Rightarrow> ''NaN''
      | Infinity \<Rightarrow> ''Infinity''
      | NegInfinity \<Rightarrow> ''-Infinity'')"

text \<open>\<open>Array.prototype.join\<close> on an array of strings.\<close>

fun join :: "string \<Rightarrow> string list \<Rightarrow> string" where
  "join sep [] = ''''"
| "join sep [x] = x"
| "join sep (x # y # ys) = x @ sep @ join sep (y # ys)"

section \<open>The data model (\<open>types.ts\<close>, as \<open>index.ts\<close> uses it)\<close>

record ImageURLOptions =
  step :: "number option"
  extension :: "string option"

text \<open>A quantity is a number or a string (the raw text of the quantity slot).\<close>

datatype Quantity = QNumber number | QString string

datatype ItemType = ingredient | cookware | timer

text \<open>
  A step item is a text item, the only kind with a \<open>value\<close> property, or an item with a
  \<open>type\<close>, a \<open>name\<close>, an optional \<open>quantity\<close> and optional \<open>units\<close>.
\<close>

datatype StepItem =
  Text string
| Item ItemType string "Quantity option" "string option"

type_synonym Step = "StepItem list"

text \<open>
  \<open>Metadata\<close> and \<open>ShoppingList\<close> are objects used as dictionaries. The code reads them
  with \<open>Object.entries\<close> only, so each is modelled by the list of entries that call returns,
  in its order.
\<close>

type_synonym Metadata = "(string \<times> string) list"

record ShoppingItem =
  name :: string
  synonym :: "string option"

type_synonym ShoppingList = "(string \<times> ShoppingItem list) list"

record Recipe =
  metadata :: Metadata
  steps :: "Step list"
  shoppingList :: ShoppingList

section \<open>\<open>getImageURL\<close>\<close>

text \<open>
  \<^verbatim>\<open>options ??= {};\<close>
  \<^verbatim>\<open>return name + (options.step ? '.' + options.step : '') + '.' + (options.extension || 'png');\<close>

  A number is truthy unless it is zero or \<open>NaN\<close>, a string unless it is empty.
\<close>

definition getImageURL :: "string \<Rightarrow> ImageURLOptions option \<Rightarrow> string" where
  "getImageURL nm options =
     (let options = (case options of None \<Rightarrow> \<lparr>step = None, extension = None\<rparr> | Some given \<Rightarrow> given)
      in nm
         @ (case step options of
              Some n \<Rightarrow> if number_truthy n then ''.'' @ Number_toString n else ''''
            | None \<Rightarrow> '''')
         @ ''.''
         @ (case extension options of
              Some e \<Rightarrow> if e \<noteq> '''' then e else ''png''
            | None \<Rightarrow> ''png''))"

text \<open>
  The image URL as the specification words it: the name, the step after a dot if a step is
  given, a dot, and the extension, which is \<open>png\<close> when the option is absent.
\<close>

definition spec_ImageURL :: "string \<Rightarrow> ImageURLOptions option \<Rightarrow> string" where
  "spec_ImageURL nm options =
     nm
     @ (case options of
          Some given \<Rightarrow> (case step given of Some n \<Rightarrow> ''.'' @ Number_toString n | None \<Rightarrow> '''')
        | None \<Rightarrow> '''')
     @ ''.''
     @ (case options of
          Some given \<Rightarrow> (case extension given of Some e \<Rightarrow> e | None \<Rightarrow> ''png'')
        | None \<Rightarrow> ''png'')"

text \<open>
  The words of the claims about a step: an integer (\<open>Number.isInteger\<close>), a positive and a
  negative number.
\<close>

definition is_integer :: "number \<Rightarrow> bool" where
  "is_integer n = (case n of Finite q \<Rightarrow> frac q = 0 | _ \<Rightarrow> False)"

definition is_positive :: "number \<Rightarrow> bool" where
  "is_positive n = (case n of Finite q \<Rightarrow> 0 < q | Infinity \<Rightarrow> True | _ \<Rightarrow> False)"


section \<open>\<open>Recipe.toCooklang\<close>\<close>

text \<open>The first loop: \<^verbatim>\<open>metadataStr += `>> ${key}: ${value}\n`\<close> for every entry.\<close>

definition metadataStr :: "Metadata \<Rightarrow> string" where
  "metadataStr m = foldl (\<lambda>acc (key, v). acc @ ''>> '' @ key @ '': '' @ v @ nl) '''' m"

fun Quantity_truthy :: "Quantity \<Rightarrow> bool" where
  "Quantity_truthy (QNumber n) = number_truthy n"
| "Quantity_truthy (QString s) = (s \<noteq> '''')"

fun Quantity_toString :: "Quantity \<Rightarrow> string" where
  "Quantity_toString (QNumber n) = Number_toString n"
| "Quantity_toString (QString s) = s"

text \<open>
  One round of the inner loop over the items of a step: \<open>stepStr\<close> before the item, and
  after it.
\<close>

fun add_item :: "string \<Rightarrow> StepItem \<Rightarrow> string" where
  "add_item stepStr (Text v) = stepStr @ v"
| "add_item stepStr (Item ty nm quantity units) =
     (let stepStr = (if ty = ingredient then stepStr @ ''@''
                     else if ty = cookware then stepStr @ ''#''
                     else stepStr @ ''~'');
          stepStr = stepStr @ nm;
          stepStr = stepStr @ ''{'';
          stepStr = (case quantity of
                       Some q \<Rightarrow> if Quantity_truthy q then stepStr @ Quantity_toString q else stepStr
                     | None \<Rightarrow> stepStr);
          stepStr = (case units of
                       Some u \<Rightarrow> if u \<noteq> '''' then stepStr @ ''%'' @ u else stepStr
                     | None \<Rightarrow> stepStr)
      in stepStr @ ''}'')"

definition stepStr :: "Step \<Rightarrow> string" where
  "stepStr st = foldl add_item '''' st"

text \<open>The second loop pushes the string of every step onto \<open>stepStrs\<close>.\<close>

definition stepStrs :: "Step list \<Rightarrow> string list" where
  "stepStrs sts = foldl (\<lambda>strs st. strs @ [stepStr st]) [] sts"

text \<open>\<^verbatim>\<open>x => x.name + (x.synonym ? '|' + x.synonym : '')\<close>\<close>

definition shoppingItemStr :: "ShoppingItem \<Rightarrow> string" where
  "shoppingItemStr x =
     name x @ (case synonym x of Some s \<Rightarrow> if s \<noteq> '''' then ''|'' @ s else '''' | None \<Rightarrow> '''')"

definition shoppingListStr :: "string \<times> ShoppingItem list \<Rightarrow> string" where
  "shoppingListStr entry =
     (case entry of (category, items) \<Rightarrow>
        (let str = '''';
             str = str @ category @ nl;
             str = str @ join nl (map shoppingItemStr items)
         in str))"

definition shoppingListStrs :: "ShoppingList \<Rightarrow> string list" where
  "shoppingListStrs sl = foldl (\<lambda>strs entry. strs @ [shoppingListStr entry]) [] sl"

definition toCooklang :: "Recipe \<Rightarrow> string" where
  "toCooklang r =
     join nl [metadataStr (metadata r),
              join (nl @ nl) (stepStrs (steps r)),
              join (nl @ nl) (shoppingListStrs (shoppingList r))]"

text \<open>
  The serializer in closed form, one definition per sentence of its description. The sigil
  of an item type:
\<close>

definition sigil :: "ItemType \<Rightarrow> string" where
  "sigil ty = (case ty of ingredient \<Rightarrow> ''@'' | cookware \<Rightarrow> ''#'' | timer \<Rightarrow> ''~'')"

text \<open>
  An item as the specification words it: a text item verbatim, any other item as its sigil,
  its name and a brace pair holding the quantity if present and \<open>%\<close> with the units if
  present.
\<close>

fun spec_itemStr :: "StepItem \<Rightarrow> string" where
  "spec_itemStr (Text v) = v"
| "spec_itemStr (Item ty nm quantity units) =
     sigil ty @ nm @ ''{''
     @ (case quantity of Some q \<Rightarrow> Quantity_toString q | None \<Rightarrow> '''')
     @ (case units of Some u \<Rightarrow> ''%'' @ u | None \<Rightarrow> '''')
     @ ''}''"

text \<open>
  An item as the code emits it: the quantity only if it is present and truthy (a number
  other than zero, a string other than the empty one), the units only if present and not
  empty.
\<close>

fun itemStr :: "StepItem \<Rightarrow> string" where
  "itemStr (Text v) = v"
| "itemStr (Item ty nm quantity units) =
     sigil ty @ nm @ ''{''
     @ (case quantity of
          Some q \<Rightarrow> if Quantity_truthy q then Quantity_toString q else ''''
        | None \<Rightarrow> '''')
     @ (case units of Some u \<Rightarrow> if u \<noteq> '''' then ''%'' @ u else '''' | None \<Rightarrow> '''')
     @ ''}''"

text \<open>
  The three sections joined as the specification words it, with the blank-line separator
  that also stands between two steps and between two categories.
\<close>

definition spec_sections :: "Recipe \<Rightarrow> string" where
  "spec_sections r =
     join (nl @ nl) [metadataStr (metadata r),
                     join (nl @ nl) (stepStrs (steps r)),
                     join (nl @ nl) (shoppingListStrs (shoppingList r))]"

section \<open>\<open>Recipe.toJSON\<close>\<close>

text \<open>
  JSON values, and \<open>JSON.stringify\<close> without indentation on them. The property list of an
  object holds its own enumerable properties in the order the language enumerates them;
  a property whose value is \<open>undefined\<close> is left out, as \<open>JSON.stringify\<close> skips it.
\<close>

datatype json =
  JString string
| JNumber number
| JArray "json list"
| JObject "(string \<times> json) list"

definition hex_chars :: string where
  "hex_chars = ''0123456789abcdef''"

definition quote_char :: "char \<Rightarrow> string" where
  "quote_char c =
     (if c = CHR 0x08 then [CHR 0x5C, CHR ''b'']
      else if c = CHR 0x09 then [CHR 0x5C, CHR ''t'']
      else if c = CHR 0x0A then [CHR 0x5C, CHR ''n'']
      else if c = CHR 0x0C then [CHR 0x5C, CHR ''f'']
      else if c = CHR 0x0D then [CHR 0x5C, CHR ''r'']
      else if c = CHR 0x22 then [CHR 0x5C, CHR 0x22]
      else if c = CHR 0x5C then [CHR 0x5C, CHR 0x5C]
      else if (of_char c :: nat) < 32
        then [CHR 0x5C, CHR ''u'', CHR ''0'', CHR ''0'',
              hex_chars ! ((of_char c :: nat) div 16), hex_chars ! ((of_char c :: nat) mod 16)]
      else [c])"

definition QuoteJSONString :: "string \<Rightarrow> string" where
  "QuoteJSONString s = [CHR 0x22] @ concat (map quote_char s) @ [CHR 0x22]"

fun JSON_stringify :: "json \<Rightarrow> string" where
  "JSON_stringify (JString s) = QuoteJSONString s"
| "JSON_stringify (JNumber n) = (case n of Finite q \<Rightarrow> Number_toString n | _ \<Rightarrow> ''null'')"
| "JSON_stringify (JArray xs) = ''['' @ join '','' (map JSON_stringify xs) @ '']''"
| "JSON_stringify (JObject props) =
     ''{'' @ join '','' (map (\<lambda>(key, v). QuoteJSONString key @ '':'' @ JSON_stringify v) props) @ ''}''"

text \<open>
  \<^verbatim>\<open>return JSON.stringify({ metadata: this.metadata, steps: this.steps });\<close>

  The property layout of a step item object is fixed where the object is built, which is
  not in \<open>index.ts\<close>: \<open>item_json\<close> gives the JSON value of a step item.
\<close>

definition toJSON :: "(StepItem \<Rightarrow> json) \<Rightarrow> Recipe \<Rightarrow> string" where
  "toJSON item_json r =
     JSON_stringify
       (JObject [(''metadata'', JObject (map (\<lambda>(key, v). (key, JString v)) (metadata r))),
                 (''steps'', JArray (map (\<lambda>st. JArray (map item_json st)) (steps r)))])"

section \<open>The constructor of \<open>Recipe\<close>\<close>

text \<open>
  \<^verbatim>\<open>this.parser = new Parser();\<close>
  \<^verbatim>\<open>if (source) { Object.assign(this, this.parser.parse(source)); }\<close>

  \<open>Parser.ts\<close> is imported by \<open>index.ts\<close> and is not part of the sources verified here:
  the \<open>parse\<close> method of the parser is a parameter. It returns the three fields of a Recipe, or throws
  (\<open>Inl\<close>). A source that is omitted or empty is falsy and leaves the fields as declared.
\<close>

definition empty_Recipe :: Recipe where
  "empty_Recipe = \<lparr>metadata = [], steps = [], shoppingList = []\<rparr>"

definition Recipe_new :: "(string \<Rightarrow> 'e + Recipe) \<Rightarrow> string option \<Rightarrow> 'e + Recipe" where
  "Recipe_new parse source =
     (case source of
        Some src \<Rightarrow>
          if src \<noteq> ''''
          then (case parse src of Inr parsed \<Rightarrow> Inr parsed | Inl e \<Rightarrow> Inl e)
          else Inr empty_Recipe
      | None \<Rightarrow> Inr empty_Recipe)"







section \<open>The Quantity Expression Reader\<close>

text \<open>
  The reader is part of \<open>Parser.ts\<close>, which \<open>index.ts\<close> imports and which is not part of
  the sources verified here. Its definitions below are modelled from section 4.3 of the
  specification. First the string helpers they share: trimming, runs of decimal digits and
  their value, and the split of a string at the first occurrence of a separator.
\<close>

definition is_space :: "char \<Rightarrow> bool" where
  "is_space c = (c \<in> set [CHR '' '', CHR 0x09, CHR 0x0A, CHR 0x0B, CHR 0x0C, CHR 0x0D])"

definition trim :: "string \<Rightarrow> string" where
  "trim s = rev (dropWhile is_space (rev (dropWhile is_space s)))"

definition digit_run :: "string \<Rightarrow> bool" where
  "digit_run s = (s \<noteq> '''' \<and> list_all (\<lambda>c. c \<in> set digit_chars) s)"

definition nat_of_digits :: "string \<Rightarrow> nat" where
  "nat_of_digits s = foldl (\<lambda>n c. 10 * n + (of_char c - 48)) 0 s"

definition split_on :: "char \<Rightarrow> string \<Rightarrow> (string \<times> string) option" where
  "split_on c s =
     (if c \<in> set s
      then Some (takeWhile (\<lambda>x. x \<noteq> c) s, tl (dropWhile (\<lambda>x. x \<noteq> c) s))
      else None)"

definition decimal_of :: "string \<Rightarrow> string \<Rightarrow> number" where
  "decimal_of a b = Finite (of_nat (nat_of_digits a) + of_nat (nat_of_digits b) / 10 ^ length b)"

text \<open>
  Modelled from the spec: rule 1 of the numeric grammar of the Quantity Expression Reader
  (\<open>Parser.ts\<close>), a fraction \<open>a/b\<close>, whose value is \<open>a\<close> divided by \<open>b\<close>. Here \<open>a\<close> and \<open>b\<close>
  are runs of decimal digits. The specification gives no value to a fraction with the
  denominator zero, and the rule does not match it. The quotient is exact here; the
  language rounds it to a double, which is the same number wherever the quotient has a
  short decimal expansion.
\<close>

definition fraction_rule :: "string \<Rightarrow> number option" where
  "fraction_rule t =
     (case split_on CHR ''/'' t of
        Some (a, b) \<Rightarrow>
          if digit_run a \<and> digit_run b \<and> nat_of_digits b \<noteq> 0
          then Some (Finite (of_nat (nat_of_digits a) / of_nat (nat_of_digits b)))
          else None
      | None \<Rightarrow> None)"

text \<open>
  Modelled from the spec: rule 2 of the numeric grammar (\<open>Parser.ts\<close>), a comma-decimal
  \<open>a,b\<close>, read with the comma as the decimal point.
\<close>

definition comma_rule :: "string \<Rightarrow> number option" where
  "comma_rule t =
     (case split_on CHR '','' t of
        Some (a, b) \<Rightarrow> if digit_run a \<and> digit_run b then Some (decimal_of a b) else None
      | None \<Rightarrow> None)"

text \<open>
  Modelled from the spec: rule 3 of the numeric grammar (\<open>Parser.ts\<close>), a plain integer or
  a decimal with a dot.
\<close>

definition plain_rule :: "string \<Rightarrow> number option" where
  "plain_rule t =
     (if digit_run t then Some (Finite (of_nat (nat_of_digits t)))
      else case split_on CHR ''.'' t of
        Some (a, b) \<Rightarrow> if digit_run a \<and> digit_run b then Some (decimal_of a b) else None
      | None \<Rightarrow> None)"

text \<open>
  Modelled from the spec: the Quantity Expression Reader (\<open>Parser.ts\<close>). The rules are
  tried in order and the first match wins; anything else is kept as raw text, trimmed; the
  empty text gives no quantity, which is not the same as an empty raw text.
\<close>

fun first_match :: "(string \<Rightarrow> number option) list \<Rightarrow> string \<Rightarrow> number option" where
  "first_match [] t = None"
| "first_match (rule # rules) t =
     (case rule t of Some v \<Rightarrow> Some v | None \<Rightarrow> first_match rules t)"

definition readQuantity :: "string \<Rightarrow> Quantity option" where
  "readQuantity txt =
     (if txt = '''' then None
      else case first_match [fraction_rule, comma_rule, plain_rule] (trim txt) of
        Some v \<Rightarrow> Some (QNumber v)
      | None \<Rightarrow> Some (QString (trim txt)))"

text \<open>
  Modelled from the spec: the contract of the Quantity Expression Reader (\<open>Parser.ts\<close>) on
  a slot, the text between the braces of an item. The quantity text is everything before
  the \<open>%\<close> separator, or the whole slot if there is none; the units are what follows the
  separator.
\<close>

definition readQuantitySlot :: "string \<Rightarrow> Quantity option \<times> string option" where
  "readQuantitySlot slot =
     (case split_on CHR ''%'' slot of
        Some (q, u) \<Rightarrow> (readQuantity q, Some u)
      | None \<Rightarrow> (readQuantity slot, None))"

section \<open>The loops of the serializer in closed form\<close>

lemma foldl_snoc_map: "foldl (\<lambda>acc x. acc @ [f x]) a xs = a @ map f xs"
  by (induction xs arbitrary: a) simp_all

lemma add_item_itemStr: "add_item acc x = acc @ itemStr x"
  by (cases x) (auto simp: sigil_def Let_def split: option.splits ItemType.splits)

lemma stepStr_concat: "stepStr st = concat (map itemStr st)"
proof -
  have "foldl add_item acc st = acc @ concat (map itemStr st)" for acc
    by (induction st arbitrary: acc) (simp_all add: add_item_itemStr)
  then show ?thesis by (simp add: stepStr_def)
qed

lemma stepStrs_map: "stepStrs sts = map stepStr sts"
  by (simp add: stepStrs_def foldl_snoc_map)

lemma shoppingListStrs_map: "shoppingListStrs sl = map shoppingListStr sl"
  by (simp add: shoppingListStrs_def foldl_snoc_map)

lemma metadataStr_concat:
  "metadataStr m = concat (map (\<lambda>(key, v). ''>> '' @ key @ '': '' @ v @ nl) m)"
proof -
  have "foldl (\<lambda>acc (key, v). acc @ ''>> '' @ key @ '': '' @ v @ nl) a m
        = a @ concat (map (\<lambda>(key, v). ''>> '' @ key @ '': '' @ v @ nl) m)" for a
    by (induction m arbitrary: a) (simp_all add: case_prod_beta)
  then show ?thesis by (simp add: metadataStr_def)
qed

lemma toCooklang_unfold:
  "toCooklang r =
     metadataStr (metadata r) @ nl
     @ join (nl @ nl) (stepStrs (steps r)) @ nl
     @ join (nl @ nl) (shoppingListStrs (shoppingList r))"
  by (simp add: toCooklang_def)

lemma Number_toString_2: "Number_toString (Finite 2) = ''2''"
  by code_simp

lemma Number_toString_1: "Number_toString (Finite 1) = ''1''"
  by code_simp




lemma shoppingListStr_unfold:
  "shoppingListStr (category, items) = category @ nl @ join nl (map shoppingItemStr items)"
  by (simp add: shoppingListStr_def)




lemma stepStrs_closed: "stepStrs sts = map (\<lambda>st. concat (map itemStr st)) sts"
  by (induction sts) (simp_all add: stepStrs_map stepStr_concat)

lemma shoppingListStrs_closed:
  "shoppingListStrs sl
   = map (\<lambda>(category, items). category @ nl @ join nl (map shoppingItemStr items)) sl"
  by (induction sl) (auto simp: shoppingListStrs_map shoppingListStr_unfold)


section \<open>The constructor on a falsy source\<close>

text \<open>
  A source that is omitted or empty never reaches the parser: the constructor returns the
  empty Recipe whatever the parser does. On any other source the constructor returns
  what the parser returns and throws what it throws.
\<close>

lemma Recipe_new_falsy_source:
  "Recipe_new parse None = Inr empty_Recipe \<and> Recipe_new parse (Some '''') = Inr empty_Recipe"
  by (simp add: Recipe_new_def)

lemma Recipe_new_truthy_source: "src \<noteq> '''' \<Longrightarrow> Recipe_new parse (Some src) = parse src"
  by (simp add: Recipe_new_def split: sum.splits)

section \<open>Claims about \<open>getImageURL\<close>\<close>




text \<open>
  Claim C4 as stated: with a step that is a positive integer when present, the URL is the
  name, the step after a dot if given, a dot and the extension, which is \<open>png\<close> when the
  option is absent. An extension that is present and empty is replaced by \<open>png\<close> as well,
  where the claim's formula ends the URL with the dot.
\<close>

theorem getImageURL_empty_extension_counterexample:
  "getImageURL ''Soup'' (Some \<lparr>step = None, extension = Some ''''\<rparr>) = ''Soup.png''
   \<and> spec_ImageURL ''Soup'' (Some \<lparr>step = None, extension = Some ''''\<rparr>) = ''Soup.''"
  by (simp add: getImageURL_def spec_ImageURL_def)

text \<open>
  Claim C4, amended: for every name and every options value whose step, when present, is a
  positive integer, \<open>getImageURL\<close> returns the name, a dot and the step if a step is given,
  a dot, and the extension, where the extension is \<open>png\<close> when the option is absent or the
  empty string.
\<close>

theorem getImageURL_positive_step:
  "(case options of
      Some given \<Rightarrow>
        (case step given of Some n \<Rightarrow> is_integer n \<and> is_positive n | None \<Rightarrow> True)
    | None \<Rightarrow> True) \<Longrightarrow>
   getImageURL nm options
   = nm
     @ (case options of
          Some given \<Rightarrow> (case step given of Some n \<Rightarrow> ''.'' @ Number_toString n | None \<Rightarrow> '''')
        | None \<Rightarrow> '''')
     @ ''.''
     @ (case options of
          Some given \<Rightarrow>
            (case extension given of Some e \<Rightarrow> if e = '''' then ''png'' else e | None \<Rightarrow> ''png'')
        | None \<Rightarrow> ''png'')"
  by (auto simp: getImageURL_def is_integer_def is_positive_def split: option.splits number.splits)

text \<open>
  The amended claim C4 at the examples of the documentation: \<open>Baked Potato\<close> with step 2
  and extension \<open>jpg\<close>, \<open>Mixed Berry Smoothie\<close> with step 1 and extension \<open>png\<close>, and
  \<open>Soup\<close> without options.
\<close>

theorem getImageURL_positive_step_witness:
  "is_integer (Finite 2) \<and> is_positive (Finite 2)
   \<and> getImageURL ''Baked Potato'' (Some \<lparr>step = Some (Finite 2), extension = Some ''jpg''\<rparr>)
     = ''Baked Potato.2.jpg''
   \<and> getImageURL ''Mixed Berry Smoothie'' (Some \<lparr>step = Some (Finite 1), extension = Some ''png''\<rparr>)
     = ''Mixed Berry Smoothie.1.png''
   \<and> getImageURL ''Soup'' None = ''Soup.png''"
  using getImageURL_positive_step [of "Some \<lparr>step = Some (Finite 2), extension = Some ''jpg''\<rparr>" "''Baked Potato''"]
    getImageURL_positive_step [of "Some \<lparr>step = Some (Finite 1), extension = Some ''png''\<rparr>" "''Mixed Berry Smoothie''"]
    getImageURL_positive_step [of None "''Soup''"]
  by (simp add: Number_toString_2 Number_toString_1 is_integer_def is_positive_def)

section \<open>Claims about \<open>Recipe.toCooklang\<close>\<close>

text \<open>
  Claim C5 as stated: the serializer joins the metadata block, the steps block and the
  shopping-list block with blank-line separators, an empty line between consecutive
  sections. For a Recipe with the step \<open>Mix\<close> and the category \<open>Veg\<close> holding \<open>carrot\<close>, the
  category header is on the line right after the step.
\<close>

theorem toCooklang_blank_line_counterexample:
  "toCooklang \<lparr>metadata = [], steps = [[Text ''Mix'']],
       shoppingList = [(''Veg'', [\<lparr>name = ''carrot'', synonym = None\<rparr>])]\<rparr>
   = ''\<newline>Mix\<newline>Veg\<newline>carrot''
   \<and> spec_sections \<lparr>metadata = [], steps = [[Text ''Mix'']],
       shoppingList = [(''Veg'', [\<lparr>name = ''carrot'', synonym = None\<rparr>])]\<rparr>
   = ''\<newline>\<newline>Mix\<newline>\<newline>Veg\<newline>carrot''"
  by (simp add: toCooklang_unfold spec_sections_def metadataStr_concat stepStrs_map
      stepStr_concat shoppingListStrs_map shoppingListStr_unfold shoppingItemStr_def nl_def)

text \<open>
  Claim C5, amended: for every Recipe the serializer joins the metadata block, the steps
  block and the shopping-list block with a single line break each. Every metadata line
  ends with a line break of its own, so a metadata block that is not empty is followed by
  an empty line; between the steps block and the shopping-list block there is the line
  break only.
\<close>

theorem toCooklang_sections:
  "toCooklang r
   = metadataStr (metadata r) @ nl
     @ join (nl @ nl) (stepStrs (steps r)) @ nl
     @ join (nl @ nl) (shoppingListStrs (shoppingList r))
   \<and> metadataStr (m @ [(key, v)]) = metadataStr m @ ''>> '' @ key @ '': '' @ v @ nl"
  by (simp add: toCooklang_unfold metadataStr_concat)

text \<open>
  Claim C6 as stated: an item other than text is emitted as its sigil, its name and a brace
  pair that holds the quantity if present and \<open>%\<close> with the units if present. A quantity
  that is present and zero is not emitted.
\<close>

theorem toCooklang_quantity_present_counterexample:
  "stepStr [Item ingredient ''a'' (Some (QNumber (Finite 0))) None] = ''@a{}''
   \<and> concat (map spec_itemStr [Item ingredient ''a'' (Some (QNumber (Finite 0))) None]) = ''@a{0}''"
proof -
  have "Number_toString (Finite 0) = ''0''" by code_simp
  then show ?thesis by (simp add: stepStr_concat sigil_def)
qed

text \<open>
  Claim C6, amended: for every Recipe the serializer emits each step as the concatenation
  of its items, a text item verbatim and any other item as its sigil (\<open>@\<close>, \<open>#\<close>, \<open>~\<close> for
  ingredient, cookware, timer), its name and a brace pair that holds the quantity if it is
  present and truthy (a number other than zero, a string other than the empty one) and
  \<open>%\<close> with the units if they are present and not empty; it joins the steps with a
  blank-line separator. Each shopping-list category is emitted as its header line followed
  by one line per item: the name, or the name, \<open>|\<close> and the synonym when a synonym is
  present and not empty.
\<close>

theorem toCooklang_steps_and_categories:
  "toCooklang r
   = metadataStr (metadata r) @ nl
     @ join (nl @ nl) (map (\<lambda>st. concat (map itemStr st)) (steps r)) @ nl
     @ join (nl @ nl)
         (map (\<lambda>(category, items). category @ nl @ join nl (map shoppingItemStr items))
            (shoppingList r))
   \<and> shoppingItemStr \<lparr>name = n, synonym = None\<rparr> = n
   \<and> shoppingItemStr \<lparr>name = n, synonym = Some s\<rparr> = (if s = '''' then n else n @ ''|'' @ s)"
  by (simp add: toCooklang_unfold stepStrs_closed shoppingListStrs_closed shoppingItemStr_def)

text \<open>
  Claim C8: an item other than text whose quantity and units are both absent is emitted
  with an empty brace pair right after its name, wherever it stands in a step. An
  ingredient named \<open>banana\<close> is emitted as \<open>@banana{}\<close>, not as the bare \<open>@banana\<close>.
\<close>

theorem toCooklang_empty_braces:
  "stepStr (pre @ [Item ty nm None None] @ post)
   = stepStr pre @ sigil ty @ nm @ ''{}'' @ stepStr post
   \<and> stepStr [Item ingredient ''banana'' None None] = ''@banana{}''
   \<and> stepStr [Item ingredient ''banana'' None None] \<noteq> ''@banana''
   \<and> toCooklang \<lparr>metadata = [], steps = [[Item ingredient ''banana'' None None]], shoppingList = []\<rparr>
     = ''\<newline>@banana{}\<newline>''"
  by (simp add: stepStr_concat sigil_def toCooklang_unfold metadataStr_concat stepStrs_map
      shoppingListStrs_map nl_def)

text \<open>
  Claim C9: an item other than text with the quantity 0 is serialized like the same item
  with no quantity, and an item with the empty units string like the same item with no
  units, wherever the item stands in a step: both fields are emitted only when truthy.
\<close>

theorem toCooklang_falsy_fields:
  "stepStr (pre @ [Item ty nm (Some (QNumber (Finite 0))) units] @ post)
   = stepStr (pre @ [Item ty nm None units] @ post)
   \<and> stepStr (pre @ [Item ty nm quantity (Some '''')] @ post)
     = stepStr (pre @ [Item ty nm quantity None] @ post)
   \<and> add_item acc (Item ty nm (Some (QNumber (Finite 0))) units) = add_item acc (Item ty nm None units)
   \<and> add_item acc (Item ty nm quantity (Some '''')) = add_item acc (Item ty nm quantity None)"
  by (simp add: stepStr_concat add_item_itemStr)

section \<open>Claims about \<open>Recipe.toJSON\<close>\<close>

text \<open>
  Claim C10: for every Recipe \<open>toJSON\<close> returns the JSON text of an object with exactly
  two members, \<open>metadata\<close> and \<open>steps\<close>, in this order; the shopping list is not part of
  it, whatever it holds: the result does not change when the shopping list does.
\<close>

theorem toJSON_metadata_and_steps:
  "toJSON item_json r
   = ''{'' @ QuoteJSONString ''metadata'' @ '':''
     @ JSON_stringify (JObject (map (\<lambda>(key, v). (key, JString v)) (metadata r)))
     @ '','' @ QuoteJSONString ''steps'' @ '':''
     @ JSON_stringify (JArray (map (\<lambda>st. JArray (map item_json st)) (steps r)))
     @ ''}''
   \<and> toJSON item_json (r\<lparr>shoppingList := sl\<rparr>) = toJSON item_json r"
  by (simp add: toJSON_def)

section \<open>Claims about the Quantity Expression Reader\<close>

text \<open>
  Claim C7: the reader tries the fraction rule, the comma-decimal rule and the plain-number
  rule in this order and takes the first that matches; the slot text \<open>1/2\<close> gives the
  number 0.5, \<open>1,5\<close> the number 1.5, \<open>2\<close> the number 2, \<open>a pinch\<close> the raw text \<open>a pinch\<close>,
  and the empty slot no quantity at all.
\<close>

theorem readQuantity_grammar:
  "readQuantity txt
   = (if txt = '''' then None
      else case fraction_rule (trim txt) of
        Some v \<Rightarrow> Some (QNumber v)
      | None \<Rightarrow>
          (case comma_rule (trim txt) of
             Some v \<Rightarrow> Some (QNumber v)
           | None \<Rightarrow>
               (case plain_rule (trim txt) of
                  Some v \<Rightarrow> Some (QNumber v)
                | None \<Rightarrow> Some (QString (trim txt)))))
   \<and> readQuantitySlot ''1/2'' = (Some (QNumber (Finite (1 / 2))), None)
   \<and> readQuantitySlot ''1,5'' = (Some (QNumber (Finite (3 / 2))), None)
   \<and> readQuantitySlot ''2'' = (Some (QNumber (Finite 2)), None)
   \<and> readQuantitySlot ''a pinch'' = (Some (QString ''a pinch''), None)
   \<and> readQuantitySlot '''' = (None, None)"
proof -
  have "readQuantitySlot ''1/2'' = (Some (QNumber (Finite (1 / 2))), None)" by code_simp
  moreover have "readQuantitySlot ''1,5'' = (Some (QNumber (Finite (3 / 2))), None)" by code_simp
  moreover have "readQuantitySlot ''2'' = (Some (QNumber (Finite 2)), None)" by code_simp
  moreover have "readQuantitySlot ''a pinch'' = (Some (QString ''a pinch''), None)" by code_simp
  moreover have "readQuantitySlot '''' = (None, None)" by code_simp
  ultimately show ?thesis
    by (simp add: readQuantity_def split: option.splits)
qed

section \<open>Claims about the round trip through the serializer\<close>




end
